theory Spec2Isabelle
  imports Complex_Main "HOL-Library.Char_ord" "HOL-Library.List_Lexorder"
begin

section \<open>Data model (app/models/models.py, app/models/booking.py)\<close>

text \<open>
  Dates are proleptic day numbers (\<open>date.toordinal()\<close>), so that the difference of two
  dates is \<open>(d1 - d2).days\<close> and the comparisons are those of \<open>int\<close>. A \<open>datetime\<close> is a
  date and the seconds since midnight. Primary keys are natural numbers. Amounts are
  \<open>Decimal\<close> values, modelled as rationals: \<open>Decimal\<close> addition, subtraction and the
  product with \<open>Decimal('0.5')\<close> are exact on \<open>Numeric(10, 2)\<close> values.
\<close>

record datetime =
  dt_date :: int
  dt_seconds :: nat

datatype RoomStatus = OCCUPIED | VACANT_DIRTY | CLEAN_READY | OUT_OF_ORDER | INSPECTED

datatype BookingStatus = PENDING | CONFIRMED | CHECKED_IN | CHECKED_OUT | CANCELLED

datatype UserRole = SUPER_ADMIN | CORPORATE_MANAGER | HOTEL_MANAGER | FRONT_DESK
  | HOUSEKEEPING | MAINTENANCE | RESTAURANT_STAFF | ACCOUNTANT

record RoomType =
  rt_id :: nat
  rt_hotel_id :: nat
  rt_name :: string
  base_price :: rat
  max_occupancy :: int
  rt_is_deleted :: bool

record Room =
  r_id :: nat
  r_hotel_id :: nat
  r_room_type_id :: nat
  room_number :: string
  r_status :: RoomStatus
  r_is_deleted :: bool

record User =
  u_id :: nat
  u_email :: string
  u_first_name :: string
  u_last_name :: string
  u_phone :: string
  u_id_number :: "string option"
  u_role :: UserRole

record Booking =
  b_id :: nat
  booking_number :: string
  b_hotel_id :: nat
  b_guest_id :: nat
  b_room_id :: "nat option"
  b_room_type_id :: nat
  check_in_date :: int
  check_out_date :: int
  actual_check_in :: "datetime option"
  actual_check_out :: "datetime option"
  num_guests :: int
  special_requests :: "string option"
  total_amount :: rat
  b_currency :: string
  b_status :: BookingStatus
  cancellation_reason :: "string option"
  cancelled_at :: "datetime option"
  refund_amount :: "rat option"
  b_is_deleted :: bool

record HousekeepingTask =
  t_room_id :: nat
  task_type :: string
  t_priority :: string
  t_status :: string

text \<open>
  The database session: one list per table, its rows in some enumeration (the order of
  insertion, say). The routes fetch a row by primary key, count rows, or list or take
  the first of the rows that a filter matches; \<open>hotel_ids\<close> are the primary keys of the
  \<open>hotels\<close> table, which the booking routes only reach through foreign keys.
\<close>

record store =
  hotel_ids :: "nat list"
  room_types :: "RoomType list"
  rooms :: "Room list"
  bookings :: "Booking list"
  tasks :: "HousekeepingTask list"
  users :: "User list"

text \<open>
  The responses of the routes that are not 2xx. \<open>NotFound\<close> is a 404;
  \<open>ValidationError\<close> is the 400 of a rejected date range; \<open>IllegalTransition\<close> is the 400
  of a status guard (``Booking already cancelled'', ``Booking must be confirmed before
  check-in'', ``Guest is not checked in''); \<open>NoRoomAvailable\<close> is the 400 ``No clean rooms
  available''; \<open>InternalError\<close> is the 500 of the \<open>except Exception\<close> handlers, after
  \<open>db.session.rollback()\<close>. A route that answers with an error has committed nothing:
  the store stays the one it was called on.
\<close>

datatype error = NotFound | ValidationError | IllegalTransition | NoRoomAvailable | InternalError

text \<open>Python truthiness of an optional integer: \<open>None\<close> and \<open>0\<close> are false.\<close>

fun truthy :: "nat option \<Rightarrow> bool" where
  "truthy None = False"
| "truthy (Some n) = (n \<noteq> 0)"

text \<open>\<open>Booking.query.get(booking_id)\<close> and \<open>Room.query.get(room_id)\<close>.\<close>

definition booking_query_get :: "store \<Rightarrow> nat \<Rightarrow> Booking option" where
  "booking_query_get st bid = find (\<lambda>b. b_id b = bid) (bookings st)"

definition room_query_get :: "store \<Rightarrow> nat \<Rightarrow> Room option" where
  "room_query_get st rid = find (\<lambda>r. r_id r = rid) (rooms st)"

text \<open>Committing the changed attributes of a loaded row writes the row with that key.\<close>

definition commit_booking :: "store \<Rightarrow> Booking \<Rightarrow> store" where
  "commit_booking st b' =
     st\<lparr>bookings := map (\<lambda>b. if b_id b = b_id b' then b' else b) (bookings st)\<rparr>"

definition commit_room_status :: "store \<Rightarrow> nat \<Rightarrow> RoomStatus \<Rightarrow> store" where
  "commit_room_status st rid s =
     st\<lparr>rooms := map (\<lambda>r. if r_id r = rid then r\<lparr>r_status := s\<rparr> else r) (rooms st)\<rparr>"

text \<open>The next value of an autoincrement primary key.\<close>

definition next_id :: "nat list \<Rightarrow> nat" where
  "next_id ids = Suc (fold max ids 0)"

text \<open>
  What the PostgreSQL store of \<open>config.py\<close> does with a value written to a column; \<open>None\<close>
  is the error that the handlers answer with a rollback and a 500. A \<open>Numeric(10, 2)\<close>
  column rounds to two decimal places, ties away from zero, and refuses a rounded value
  of more than eight digits before the point. An \<open>Integer\<close> column holds 32 bits. A
  \<open>String(n)\<close> column refuses a longer string unless the excess is all spaces, which it
  cuts off; lengths are counted in the characters of \<open>string\<close>.
\<close>

definition numeric_10_2 :: "rat \<Rightarrow> rat option" where
  "numeric_10_2 x =
     (let cents = (if 0 \<le> x then \<lfloor>x * 100 + 1 / 2\<rfloor> else - \<lfloor>- x * 100 + 1 / 2\<rfloor>)
      in if \<bar>cents\<bar> < 10 ^ 10 then Some (rat_of_int cents / 100) else None)"

definition integer_column :: "int \<Rightarrow> int option" where
  "integer_column i = (if - (2 ^ 31) \<le> i \<and> i < 2 ^ 31 then Some i else None)"

definition varchar :: "nat \<Rightarrow> string \<Rightarrow> string option" where
  "varchar n s =
     (if length s \<le> n then Some s
      else if list_all (\<lambda>c. c = CHR '' '') (drop n s) then Some (take n s)
      else None)"

section \<open>Availability search (routes/bookings.py, search_availability)\<close>

text \<open>
  The date filter of the \<open>booked_rooms\<close> query, on a booking's \<open>check_in_date\<close> and
  \<open>check_out_date\<close> and the searched \<open>check_in\<close> and \<open>check_out\<close>: the \<open>or_\<close> of three
  \<open>and_\<close> clauses.
\<close>

definition date_filter :: "int \<Rightarrow> int \<Rightarrow> int \<Rightarrow> int \<Rightarrow> bool" where
  "date_filter b_in b_out check_in check_out \<longleftrightarrow>
     (b_in \<le> check_in \<and> b_out > check_in)
   \<or> (b_in < check_out \<and> b_out \<ge> check_out)
   \<or> (b_in \<ge> check_in \<and> b_out \<le> check_out)"

text \<open>
  The overlap of two half-open intervals as the specification words it:
  \<open>[a1, a2)\<close> and \<open>[b1, b2)\<close> overlap iff \<open>a1 < b2\<close> and \<open>b1 < a2\<close>.
\<close>

definition spec_half_open_overlap :: "int \<Rightarrow> int \<Rightarrow> int \<Rightarrow> int \<Rightarrow> bool" where
  "spec_half_open_overlap a1 a2 b1 b2 \<longleftrightarrow> a1 < b2 \<and> b1 < a2"

definition total_rooms :: "store \<Rightarrow> nat \<Rightarrow> RoomType \<Rightarrow> int" where
  "total_rooms st hotel_id room_type =
     int (length (filter (\<lambda>r. r_hotel_id r = hotel_id \<and> r_room_type_id r = rt_id room_type
                              \<and> \<not> r_is_deleted r \<and> r_status r \<noteq> OUT_OF_ORDER) (rooms st)))"

definition booked_rooms :: "store \<Rightarrow> nat \<Rightarrow> RoomType \<Rightarrow> int \<Rightarrow> int \<Rightarrow> int" where
  "booked_rooms st hotel_id room_type check_in check_out =
     int (length (filter (\<lambda>b. b_room_type_id b = rt_id room_type \<and> b_hotel_id b = hotel_id
                              \<and> b_status b \<in> {CONFIRMED, CHECKED_IN}
                              \<and> date_filter (check_in_date b) (check_out_date b) check_in check_out)
                         (bookings st)))"

text \<open>
  One entry of \<open>available_room_types\<close>. The entry also carries \<open>price_per_night\<close> and
  \<open>total_price\<close>, which are binary floating point (\<open>float(base_price) * num_nights\<close>) and
  are left out; the room type's own fields are those of \<open>av_room_type\<close>.
\<close>

record availability =
  av_room_type :: RoomType
  available_rooms :: int
  av_num_nights :: int

text \<open>
  The loop over the room types that the first query returned. The query has no
  \<open>order_by\<close>; the entries come in the order in which the database returned the room
  types, for which the order of the list stands.
\<close>

fun available_types :: "store \<Rightarrow> nat \<Rightarrow> int \<Rightarrow> int \<Rightarrow> RoomType list \<Rightarrow> availability list" where
  "available_types st hotel_id check_in check_out [] = []"
| "available_types st hotel_id check_in check_out (room_type # rest) =
     (let available = total_rooms st hotel_id room_type
                      - booked_rooms st hotel_id room_type check_in check_out
      in if available > 0
         then \<lparr>av_room_type = room_type, available_rooms = available,
               av_num_nights = check_out - check_in\<rparr>
              # available_types st hotel_id check_in check_out rest
         else available_types st hotel_id check_in check_out rest)"

text \<open>
  The route on a request whose four fields are present and whose dates parse;
  \<open>today\<close> is \<open>date.today()\<close>.
\<close>

definition search_availability ::
  "store \<Rightarrow> nat \<Rightarrow> int \<Rightarrow> int \<Rightarrow> int \<Rightarrow> int \<Rightarrow> error + availability list" where
  "search_availability st hotel_id check_in check_out n_guests today =
     (if check_in \<ge> check_out then Inl ValidationError
      else if check_in < today then Inl ValidationError
      else Inr (available_types st hotel_id check_in check_out
                  (filter (\<lambda>rt. rt_hotel_id rt = hotel_id \<and> \<not> rt_is_deleted rt
                                 \<and> max_occupancy rt \<ge> n_guests) (room_types st))))"

text \<open>
  The count the specification describes: eligible rooms minus the active bookings whose
  half-open date range overlaps \<open>[check_in, check_out)\<close>.
\<close>

definition spec_available :: "store \<Rightarrow> nat \<Rightarrow> RoomType \<Rightarrow> int \<Rightarrow> int \<Rightarrow> int" where
  "spec_available st hotel_id room_type check_in check_out =
     int (length (filter (\<lambda>r. r_hotel_id r = hotel_id \<and> r_room_type_id r = rt_id room_type
                              \<and> \<not> r_is_deleted r \<and> r_status r \<noteq> OUT_OF_ORDER) (rooms st)))
     - int (length (filter (\<lambda>b. b_room_type_id b = rt_id room_type \<and> b_hotel_id b = hotel_id
                              \<and> (b_status b = CONFIRMED \<or> b_status b = CHECKED_IN)
                              \<and> spec_half_open_overlap (check_in_date b) (check_out_date b)
                                    check_in check_out)
                           (bookings st)))"

section \<open>Cancellation policy (models/booking.py, Booking.calculate_cancellation_charge)\<close>

text \<open>
  \<open>today\<close> is \<open>datetime.utcnow().date()\<close>. The first argument is the booking's
  \<open>check_in_date\<close>, \<open>None\<close> when the attribute is unset.
\<close>

definition cancellation_charge_of :: "int option \<Rightarrow> rat \<Rightarrow> int \<Rightarrow> rat" where
  "cancellation_charge_of check_in amount today =
     (case check_in of
        None \<Rightarrow> 0
      | Some d \<Rightarrow>
          (let days_until_checkin = d - today
           in if days_until_checkin \<ge> 2 then 0
              else if days_until_checkin \<ge> 0 then amount * (1 / 2)
              else amount))"

definition calculate_cancellation_charge :: "Booking \<Rightarrow> int \<Rightarrow> rat" where
  "calculate_cancellation_charge b today =
     cancellation_charge_of (Some (check_in_date b)) (total_amount b) today"

section \<open>Booking lifecycle (routes/bookings.py)\<close>

text \<open>
  The JSON body of \<open>create_booking\<close> with the ten required fields present and the two
  dates parsed; \<open>guest_id_number\<close>, \<open>special_requests\<close> and \<open>currency\<close> are read with
  \<open>data.get\<close>.
\<close>

record booking_request =
  req_hotel_id :: nat
  req_room_type_id :: nat
  req_check_in :: int
  req_check_out :: int
  req_num_guests :: int
  req_guest_email :: string
  req_guest_first_name :: string
  req_guest_last_name :: string
  req_guest_phone :: string
  req_guest_id_number :: "string option"
  req_special_requests :: "string option"
  req_total_amount :: rat
  req_currency :: "string option"

text \<open>
  The guest that \<open>create_booking\<close> adds and flushes when no user has the e-mail address:
  the row as the \<open>users\<close> table takes it (\<open>email\<close> is unique).
\<close>

definition new_guest :: "store \<Rightarrow> booking_request \<Rightarrow> User option" where
  "new_guest st data =
     (case (varchar 120 (req_guest_email data), varchar 100 (req_guest_first_name data),
            varchar 100 (req_guest_last_name data), varchar 20 (req_guest_phone data),
            (case req_guest_id_number data of
               None \<Rightarrow> Some None
             | Some s \<Rightarrow> map_option Some (varchar 50 s))) of
        (Some e, Some f, Some l, Some p, Some i) \<Rightarrow>
          if e \<in> set (map u_email (users st)) then None
          else Some \<lparr>u_id = next_id (map u_id (users st)), u_email = e, u_first_name = f,
                     u_last_name = l, u_phone = p, u_id_number = i, u_role = FRONT_DESK\<rparr>
      | _ \<Rightarrow> None)"

text \<open>
  The \<open>Booking(...)\<close> of \<open>create_booking\<close>, as the \<open>bookings\<close> table takes it. \<open>number\<close> is
  the value \<open>generate_booking_number()\<close> drew.
\<close>

definition new_booking :: "store \<Rightarrow> booking_request \<Rightarrow> string \<Rightarrow> nat \<Rightarrow> Booking option" where
  "new_booking st data number guest_id =
     (case (varchar 20 number, integer_column (req_num_guests data),
            numeric_10_2 (req_total_amount data),
            varchar 3 (case req_currency data of None \<Rightarrow> ''USD'' | Some c \<Rightarrow> c)) of
        (Some bn, Some n, Some amount, Some cur) \<Rightarrow>
          Some \<lparr>b_id = next_id (map b_id (bookings st)),
                booking_number = bn,
                b_hotel_id = req_hotel_id data,
                b_guest_id = guest_id,
                b_room_id = None,
                b_room_type_id = req_room_type_id data,
                check_in_date = req_check_in data,
                check_out_date = req_check_out data,
                actual_check_in = None,
                actual_check_out = None,
                num_guests = n,
                special_requests = req_special_requests data,
                total_amount = amount,
                b_currency = cur,
                b_status = PENDING,
                cancellation_reason = None,
                cancelled_at = None,
                refund_amount = None,
                b_is_deleted = False\<rparr>
      | _ \<Rightarrow> None)"

text \<open>
  \<open>create_booking\<close>. The route checks nothing about the dates, the guest count or the
  room type; what can fail is the flush of the guest or the commit of the booking, on
  the column types and on the constraints of the \<open>bookings\<close> table (the unique
  \<open>booking_number\<close>, the foreign keys \<open>hotel_id\<close> and \<open>room_type_id\<close>), which the handler
  answers with a rollback and a 500. The booking of the response is the stored row.
\<close>

definition create_booking :: "store \<Rightarrow> booking_request \<Rightarrow> string \<Rightarrow> error + Booking \<times> store" where
  "create_booking st data number =
     (let found = find (\<lambda>u. u_email u = req_guest_email data) (users st)
      in case (case found of Some u \<Rightarrow> Some u | None \<Rightarrow> new_guest st data) of
           None \<Rightarrow> Inl InternalError
         | Some guest \<Rightarrow>
             (case new_booking st data number (u_id guest) of
                None \<Rightarrow> Inl InternalError
              | Some booking \<Rightarrow>
                  if booking_number booking \<in> set (map booking_number (bookings st))
                  then Inl InternalError
                  else if req_hotel_id data \<in> set (hotel_ids st)
                          \<and> req_room_type_id data \<in> set (map rt_id (room_types st))
                  then Inr (booking,
                            st\<lparr>users := (case found of Some u \<Rightarrow> users st
                                                      | None \<Rightarrow> users st @ [guest]),
                               bookings := bookings st @ [booking]\<rparr>)
                  else Inl InternalError))"

text \<open>\<open>get_booking\<close>: the only route that reads \<open>is_deleted\<close>.\<close>

definition get_booking :: "store \<Rightarrow> nat \<Rightarrow> error + Booking" where
  "get_booking st booking_id =
     (case booking_query_get st booking_id of
        None \<Rightarrow> Inl NotFound
      | Some booking \<Rightarrow> if b_is_deleted booking then Inl NotFound else Inr booking)"

text \<open>\<open>confirm_booking\<close>: the status is assigned whatever it was.\<close>

definition confirm_booking :: "store \<Rightarrow> nat \<Rightarrow> error + store" where
  "confirm_booking st booking_id =
     (case booking_query_get st booking_id of
        None \<Rightarrow> Inl NotFound
      | Some booking \<Rightarrow> Inr (commit_booking st (booking\<lparr>b_status := CONFIRMED\<rparr>)))"

text \<open>
  \<open>cancel_booking\<close>. \<open>reason\<close> is \<open>data.get('reason')\<close>. The route reads the clock twice:
  \<open>policy_now\<close> is the \<open>datetime.utcnow()\<close> inside \<open>calculate_cancellation_charge\<close>, and
  \<open>now\<close> is the later one that becomes \<open>cancelled_at\<close>. The result carries the \<open>charge\<close>
  and the \<open>refund\<close> that the route computes, as the \<open>Decimal\<close> values they are before the
  response prints them with \<open>float\<close>; the stored \<open>refund_amount\<close> is the refund as the
  \<open>Numeric(10, 2)\<close> column takes it.
\<close>

definition cancel_booking ::
  "store \<Rightarrow> nat \<Rightarrow> string option \<Rightarrow> datetime \<Rightarrow> datetime \<Rightarrow> error + rat \<times> rat \<times> store" where
  "cancel_booking st booking_id reason policy_now now =
     (case booking_query_get st booking_id of
        None \<Rightarrow> Inl NotFound
      | Some booking \<Rightarrow>
          if b_status booking = CANCELLED then Inl IllegalTransition
          else (let charge = calculate_cancellation_charge booking (dt_date policy_now);
                    refund = total_amount booking - charge
                in case numeric_10_2 refund of
                     None \<Rightarrow> Inl InternalError
                   | Some stored \<Rightarrow>
                       Inr (charge, refund,
                            commit_booking st
                              (booking\<lparr>b_status := CANCELLED,
                                       cancelled_at := Some now,
                                       cancellation_reason := reason,
                                       refund_amount := Some stored\<rparr>))))"

text \<open>
  The auto-assignment query of \<open>check_in\<close>: \<open>filter_by(hotel_id, room_type_id,
  status=CLEAN_READY, is_deleted=False).first()\<close>. The query has no \<open>order_by\<close>, so which
  of the matching rows it returns is the database's choice (the heap order under a
  sequential scan, the order of an index under an index scan). \<open>plan\<close> stands for that
  choice: the position, among the matching rows, of the row that comes first.
\<close>

definition clean_room_of :: "Booking \<Rightarrow> Room \<Rightarrow> bool" where
  "clean_room_of booking r \<longleftrightarrow>
     r_hotel_id r = b_hotel_id booking \<and> r_room_type_id r = b_room_type_id booking
     \<and> r_status r = CLEAN_READY \<and> \<not> r_is_deleted r"

definition first_clean_room :: "store \<Rightarrow> Booking \<Rightarrow> nat \<Rightarrow> Room option" where
  "first_clean_room st booking plan =
     (case filter (clean_room_of booking) (rooms st) of
        [] \<Rightarrow> None
      | r # rs \<Rightarrow> Some ((r # rs) ! (plan mod length (r # rs))))"

text \<open>
  The room id that \<open>check_in\<close> leaves in \<open>booking.room_id\<close>: the one already there, else
  the requested one, else the one of the row that the query returns.
\<close>

definition resolve_room_id ::
  "store \<Rightarrow> Booking \<Rightarrow> nat option \<Rightarrow> nat \<Rightarrow> error + nat option" where
  "resolve_room_id st booking requested plan =
     (if \<not> truthy (b_room_id booking)
      then (if \<not> truthy requested
            then (case first_clean_room st booking plan of
                    None \<Rightarrow> Inl NoRoomAvailable
                  | Some room \<Rightarrow> Inr (Some (r_id room)))
            else Inr requested)
      else Inr (b_room_id booking))"

text \<open>
  \<open>check_in\<close>. \<open>requested\<close> is \<open>data.get('room_id')\<close>. When \<open>Room.query.get\<close> finds no
  room, \<open>room.status = ...\<close> raises and the handler rolls back.
\<close>

definition check_in ::
  "store \<Rightarrow> nat \<Rightarrow> nat option \<Rightarrow> nat \<Rightarrow> datetime \<Rightarrow> error + store" where
  "check_in st booking_id requested plan now =
     (case booking_query_get st booking_id of
        None \<Rightarrow> Inl NotFound
      | Some booking \<Rightarrow>
          if b_status booking \<noteq> CONFIRMED then Inl IllegalTransition
          else (case resolve_room_id st booking requested plan of
                  Inl e \<Rightarrow> Inl e
                | Inr rid \<Rightarrow>
                    (case (case rid of None \<Rightarrow> None | Some i \<Rightarrow> room_query_get st i) of
                       None \<Rightarrow> Inl InternalError
                     | Some room \<Rightarrow>
                         Inr (commit_room_status
                                (commit_booking st
                                   (booking\<lparr>b_room_id := rid,
                                            b_status := CHECKED_IN,
                                            actual_check_in := Some now\<rparr>))
                                (r_id room) OCCUPIED))))"

definition cleaning_task :: "nat \<Rightarrow> HousekeepingTask" where
  "cleaning_task rid =
     \<lparr>t_room_id = rid, task_type = ''cleaning'', t_priority = ''normal'', t_status = ''pending''\<rparr>"

text \<open>
  \<open>check_out\<close>. \<open>booking.room\<close> is the row that \<open>room_id\<close> refers to, if any; the task takes
  \<open>booking.room_id\<close>.
\<close>

definition check_out :: "store \<Rightarrow> nat \<Rightarrow> datetime \<Rightarrow> error + store" where
  "check_out st booking_id now =
     (case booking_query_get st booking_id of
        None \<Rightarrow> Inl NotFound
      | Some booking \<Rightarrow>
          if b_status booking \<noteq> CHECKED_IN then Inl IllegalTransition
          else (let st1 = commit_booking st
                            (booking\<lparr>b_status := CHECKED_OUT, actual_check_out := Some now\<rparr>)
                in case b_room_id booking of
                     None \<Rightarrow> Inr st1
                   | Some rid \<Rightarrow>
                       (case room_query_get st rid of
                          None \<Rightarrow> Inr st1
                        | Some room \<Rightarrow>
                            Inr ((commit_room_status st1 (r_id room) VACANT_DIRTY)
                                   \<lparr>tasks := tasks st1 @ [cleaning_task rid]\<rparr>))))"

text \<open>Setting or clearing the soft-delete flag of the booking with a given key.\<close>

definition mark_deleted :: "bool \<Rightarrow> nat \<Rightarrow> store \<Rightarrow> store" where
  "mark_deleted flag booking_id st =
     st\<lparr>bookings := map (\<lambda>b. if b_id b = booking_id then b\<lparr>b_is_deleted := flag\<rparr> else b)
                         (bookings st)\<rparr>"

section \<open>The booking invariant of the specification\<close>

text \<open>
  \<open>check_out_date > check_in_date\<close>, and \<open>room_id\<close> is set if and only if the status is
  \<open>CHECKED_IN\<close> or \<open>CHECKED_OUT\<close>, or the booking was checked in (it has
  \<open>actual_check_in\<close>) before it was cancelled.
\<close>

definition spec_booking_invariant :: "Booking \<Rightarrow> bool" where
  "spec_booking_invariant b \<longleftrightarrow>
     check_out_date b > check_in_date b
     \<and> ((b_room_id b \<noteq> None) =
        (b_status b = CHECKED_IN \<or> b_status b = CHECKED_OUT
         \<or> (b_status b = CANCELLED \<and> actual_check_in b \<noteq> None)))"

section \<open>A small property: one room type, two clean rooms\<close>

definition standard_type :: RoomType where
  "standard_type = \<lparr>rt_id = 1, rt_hotel_id = 1, rt_name = ''Standard'', base_price = 100,
                     max_occupancy = 2, rt_is_deleted = False\<rparr>"

definition room_102 :: Room where
  "room_102 = \<lparr>r_id = 1, r_hotel_id = 1, r_room_type_id = 1, room_number = ''102'',
                r_status = CLEAN_READY, r_is_deleted = False\<rparr>"

definition room_101 :: Room where
  "room_101 = \<lparr>r_id = 2, r_hotel_id = 1, r_room_type_id = 1, room_number = ''101'',
                r_status = CLEAN_READY, r_is_deleted = False\<rparr>"

definition room_103 :: Room where
  "room_103 = \<lparr>r_id = 3, r_hotel_id = 1, r_room_type_id = 1, room_number = ''103'',
                r_status = VACANT_DIRTY, r_is_deleted = False\<rparr>"

definition room_104 :: Room where
  "room_104 = \<lparr>r_id = 4, r_hotel_id = 1, r_room_type_id = 1, room_number = ''104'',
                r_status = CLEAN_READY, r_is_deleted = True\<rparr>"

definition empty_hotel :: store where
  "empty_hotel = \<lparr>hotel_ids = [1], room_types = [standard_type], rooms = [room_102, room_101],
                   bookings = [], tasks = [], users = []\<rparr>"

definition the_guest :: User where
  "the_guest = \<lparr>u_id = 1, u_email = ''guest@example.com'', u_first_name = ''Ada'',
                 u_last_name = ''Guest'', u_phone = ''0700000000'', u_id_number = None,
                 u_role = FRONT_DESK\<rparr>"

text \<open>A request for two guests and the nights of days 10 and 11.\<close>

definition stay_request :: booking_request where
  "stay_request = \<lparr>req_hotel_id = 1, req_room_type_id = 1, req_check_in = 10, req_check_out = 12,
                    req_num_guests = 2, req_guest_email = ''guest@example.com'',
                    req_guest_first_name = ''Ada'', req_guest_last_name = ''Guest'',
                    req_guest_phone = ''0700000000'', req_guest_id_number = None,
                    req_special_requests = None, req_total_amount = 200, req_currency = None\<rparr>"

text \<open>
  A request for no night at all (check-out on the check-in day), for five guests in a
  room type for two.
\<close>

definition empty_stay_request :: booking_request where
  "empty_stay_request = stay_request\<lparr>req_check_out := 10, req_num_guests := 5\<rparr>"

definition stay_booking :: Booking where
  "stay_booking = \<lparr>b_id = 1, booking_number = ''BK20240301ABC123'', b_hotel_id = 1,
                    b_guest_id = 1, b_room_id = None, b_room_type_id = 1, check_in_date = 10,
                    check_out_date = 12, actual_check_in = None, actual_check_out = None,
                    num_guests = 2, special_requests = None, total_amount = 200,
                    b_currency = ''USD'', b_status = PENDING, cancellation_reason = None,
                    cancelled_at = None, refund_amount = None, b_is_deleted = False\<rparr>"

definition empty_stay_booking :: Booking where
  "empty_stay_booking = stay_booking\<lparr>check_out_date := 10, num_guests := 5\<rparr>"

definition hotel_with :: "Booking list \<Rightarrow> store" where
  "hotel_with bs = empty_hotel\<lparr>bookings := bs, users := [the_guest]\<rparr>"

definition noon :: datetime where
  "noon = \<lparr>dt_date = 10, dt_seconds = 43200\<rparr>"

text \<open>The store after check-in of the stay into room 102, and after its cancellation there.\<close>

definition checked_in_stay :: Booking where
  "checked_in_stay = stay_booking\<lparr>b_room_id := Some 1, b_status := CHECKED_IN,
                                   actual_check_in := Some noon\<rparr>"

definition checked_in_hotel :: store where
  "checked_in_hotel = commit_room_status (hotel_with [checked_in_stay]) 1 OCCUPIED"

definition cancelled_in_house :: store where
  "cancelled_in_house =
     commit_room_status
       (hotel_with [checked_in_stay\<lparr>b_status := CANCELLED, cancelled_at := Some noon,
                                   refund_amount := Some 100\<rparr>]) 1 OCCUPIED"

text \<open>The hotel with a dirty room and a soft-deleted room before the two clean ones.\<close>

definition four_rooms :: "Booking list \<Rightarrow> store" where
  "four_rooms bs = (hotel_with bs)\<lparr>rooms := [room_103, room_104, room_102, room_101]\<rparr>"

definition no_clean_room :: "Booking list \<Rightarrow> store" where
  "no_clean_room bs = (hotel_with bs)\<lparr>rooms := [room_103, room_104]\<rparr>"

section \<open>Lookups after a commit\<close>

lemma find_key_eq: "find (\<lambda>x. f x = k) xs = Some y \<Longrightarrow> f y = k"
  by (induction xs) (auto split: if_splits)

lemma find_map_replace:
  "find (\<lambda>x. f x = k) xs = Some y \<Longrightarrow> f y' = k
   \<Longrightarrow> find (\<lambda>x. f x = k) (map (\<lambda>x. if f x = k then y' else x) xs) = Some y'"
  by (induction xs) (auto split: if_splits)

lemma find_map_modify:
  "find (\<lambda>x. f x = k) xs = Some y \<Longrightarrow> (\<And>x. f (g x) = f x)
   \<Longrightarrow> find (\<lambda>x. f x = k) (map (\<lambda>x. if f x = k then g x else x) xs) = Some (g y)"
  by (induction xs) (auto split: if_splits)

lemma booking_query_get_id: "booking_query_get st bid = Some b \<Longrightarrow> b_id b = bid"
  unfolding booking_query_get_def by (rule find_key_eq)

lemma room_query_get_id: "room_query_get st rid = Some r \<Longrightarrow> r_id r = rid"
  unfolding room_query_get_def by (rule find_key_eq)

lemma booking_query_get_commit:
  "booking_query_get st bid = Some b \<Longrightarrow> b_id b' = bid
   \<Longrightarrow> booking_query_get (commit_booking st b') bid = Some b'"
  unfolding booking_query_get_def commit_booking_def
  by (simp add: find_map_replace)

lemma room_query_get_commit:
  "room_query_get st rid = Some r
   \<Longrightarrow> room_query_get (commit_room_status st rid s) rid = Some (r\<lparr>r_status := s\<rparr>)"
  unfolding room_query_get_def commit_room_status_def
  using find_map_modify [where f = r_id and g = "\<lambda>r. r\<lparr>r_status := s\<rparr>"]
  by simp

lemma booking_query_get_commit_room [simp]:
  "booking_query_get (commit_room_status st rid s) bid = booking_query_get st bid"
  by (simp add: booking_query_get_def commit_room_status_def)

lemma room_query_get_commit_booking [simp]:
  "room_query_get (commit_booking st b) rid = room_query_get st rid"
  by (simp add: room_query_get_def commit_booking_def)

lemma tasks_commit [simp]:
  "tasks (commit_booking st b) = tasks st" "tasks (commit_room_status st rid s) = tasks st"
  by (simp_all add: commit_booking_def commit_room_status_def)

section \<open>The availability count and the date filter\<close>

lemma available_types_map_filter:
  "available_types st hid d_in d_out rts =
     map (\<lambda>rt. \<lparr>av_room_type = rt,
                available_rooms = total_rooms st hid rt - booked_rooms st hid rt d_in d_out,
                av_num_nights = d_out - d_in\<rparr>)
         (filter (\<lambda>rt. 0 < total_rooms st hid rt - booked_rooms st hid rt d_in d_out) rts)"
  by (induction rts) (simp_all add: Let_def)

lemma date_filter_half_open:
  "b_in < b_out \<Longrightarrow> s_in < s_out
   \<Longrightarrow> date_filter b_in b_out s_in s_out = spec_half_open_overlap b_in b_out s_in s_out"
  unfolding date_filter_def spec_half_open_overlap_def by auto

lemma spec_available_eq:
  assumes "\<forall>b \<in> set (bookings st). check_in_date b < check_out_date b" and "d_in < d_out"
  shows "total_rooms st hid rt - booked_rooms st hid rt d_in d_out = spec_available st hid rt d_in d_out"
proof -
  have "filter (\<lambda>b. b_room_type_id b = rt_id rt \<and> b_hotel_id b = hid
                    \<and> b_status b \<in> {CONFIRMED, CHECKED_IN}
                    \<and> date_filter (check_in_date b) (check_out_date b) d_in d_out) (bookings st)
      = filter (\<lambda>b. b_room_type_id b = rt_id rt \<and> b_hotel_id b = hid
                    \<and> (b_status b = CONFIRMED \<or> b_status b = CHECKED_IN)
                    \<and> spec_half_open_overlap (check_in_date b) (check_out_date b) d_in d_out)
               (bookings st)"
    using assms by (intro filter_cong refl) (auto simp: date_filter_half_open)
  then show ?thesis
    by (simp add: total_rooms_def booked_rooms_def spec_available_def)
qed

text \<open>
  On a store whose bookings all have \<open>check_in_date < check_out_date\<close>, as the data model
  of the specification requires, the search reports the count of the specification: it
  lists exactly the room types of the hotel that are not soft-deleted, have
  \<open>max_occupancy >= num_guests\<close> and have a positive count, each with the count of
  eligible rooms minus active bookings that overlap \<open>[check_in, check_out)\<close>.
\<close>

lemma search_availability_on_valid_bookings:
  assumes "search_availability st hid d_in d_out n today = Inr res"
    and "\<forall>b \<in> set (bookings st). check_in_date b < check_out_date b"
  shows "res = map (\<lambda>rt. \<lparr>av_room_type = rt,
                          available_rooms = spec_available st hid rt d_in d_out,
                          av_num_nights = d_out - d_in\<rparr>)
                   (filter (\<lambda>rt. rt_hotel_id rt = hid \<and> \<not> rt_is_deleted rt
                                  \<and> max_occupancy rt \<ge> n
                                  \<and> 0 < spec_available st hid rt d_in d_out)
                           (room_types st))
       \<and> (\<forall>e \<in> set res. available_rooms e > 0)"
proof -
  from assms(1) have range: "d_in < d_out"
    by (auto simp: search_availability_def split: if_splits)
  have eq: "total_rooms st hid rt - booked_rooms st hid rt d_in d_out
              = spec_available st hid rt d_in d_out" for rt
    using spec_available_eq [OF assms(2) range] .
  from assms(1) have res: "res = available_types st hid d_in d_out
                  (filter (\<lambda>rt. rt_hotel_id rt = hid \<and> \<not> rt_is_deleted rt \<and> max_occupancy rt \<ge> n)
                          (room_types st))"
    by (auto simp: search_availability_def split: if_splits)
  have one: "res = map (\<lambda>rt. \<lparr>av_room_type = rt,
                          available_rooms = spec_available st hid rt d_in d_out,
                          av_num_nights = d_out - d_in\<rparr>)
                   (filter (\<lambda>rt. rt_hotel_id rt = hid \<and> \<not> rt_is_deleted rt
                                  \<and> max_occupancy rt \<ge> n
                                  \<and> 0 < spec_available st hid rt d_in d_out)
                           (room_types st))"
    unfolding res available_types_map_filter eq by (simp add: conj_ac)
  have two: "\<forall>e \<in> set res. available_rooms e > 0"
    by (subst one) auto
  from one two show ?thesis by simp
qed

text \<open>
  Claim C1 fails on the code, on a store that the missing validation of \<open>create_booking\<close>
  produces. The request for no night (check-out on the check-in day 10) is stored and
  confirmed; the booking overlaps no night of \<open>[10, 12)\<close>, so both rooms are free by the
  count of the claim, but the third clause of the date filter holds for it and the
  search reports one room.
\<close>

theorem search_counts_booking_without_nights:
  "create_booking empty_hotel empty_stay_request ''BK20240301ABC123''
     = Inr (empty_stay_booking, hotel_with [empty_stay_booking])
   \<and> confirm_booking (hotel_with [empty_stay_booking]) 1
     = Inr (hotel_with [empty_stay_booking\<lparr>b_status := CONFIRMED\<rparr>])
   \<and> search_availability (hotel_with [empty_stay_booking\<lparr>b_status := CONFIRMED\<rparr>]) 1 10 12 2 10
     = Inr [\<lparr>av_room_type = standard_type, available_rooms = 1, av_num_nights = 2\<rparr>]
   \<and> spec_available (hotel_with [empty_stay_booking\<lparr>b_status := CONFIRMED\<rparr>]) 1 standard_type 10 12 = 2"
proof -
  have made: "create_booking empty_hotel empty_stay_request ''BK20240301ABC123''
     = Inr (empty_stay_booking, hotel_with [empty_stay_booking])"
    by (simp add: create_booking_def new_guest_def new_booking_def varchar_def numeric_10_2_def
        integer_column_def floor_eq_iff empty_hotel_def empty_stay_request_def stay_request_def
        empty_stay_booking_def stay_booking_def hotel_with_def the_guest_def standard_type_def
        next_id_def Let_def)
  have confirmed: "confirm_booking (hotel_with [empty_stay_booking]) 1
     = Inr (hotel_with [empty_stay_booking\<lparr>b_status := CONFIRMED\<rparr>])"
    by (simp add: confirm_booking_def booking_query_get_def commit_booking_def hotel_with_def
        empty_stay_booking_def stay_booking_def)
  have searched: "search_availability (hotel_with [empty_stay_booking\<lparr>b_status := CONFIRMED\<rparr>]) 1 10 12 2 10
     = Inr [\<lparr>av_room_type = standard_type, available_rooms = 1, av_num_nights = 2\<rparr>]"
    by (simp add: search_availability_def hotel_with_def empty_hotel_def standard_type_def
        total_rooms_def booked_rooms_def room_102_def room_101_def stay_booking_def
        empty_stay_booking_def date_filter_def)
  have claimed: "spec_available (hotel_with [empty_stay_booking\<lparr>b_status := CONFIRMED\<rparr>]) 1 standard_type 10 12 = 2"
    by (simp add: hotel_with_def empty_hotel_def standard_type_def room_102_def room_101_def
        stay_booking_def empty_stay_booking_def spec_available_def spec_half_open_overlap_def)
  from made confirmed searched claimed show ?thesis by simp
qed

text \<open>
  Claim C2. For a booking with \<open>check_in_date < check_out_date\<close> and a search range with
  \<open>check_in < check_out\<close>, the three-way date filter is the half-open overlap
  \<open>b_in < s_out \<and> s_in < b_out\<close>; a search range that begins on the booking's check-out
  day, or ends on its check-in day, passes neither.
\<close>

theorem three_way_filter_is_half_open_overlap:
  fixes b_in b_out s_in s_out :: int
  assumes "b_in < b_out" and "s_in < s_out"
  shows "(date_filter b_in b_out s_in s_out \<longleftrightarrow> spec_half_open_overlap b_in b_out s_in s_out)
       \<and> \<not> date_filter b_in b_out b_out (b_out + (s_out - s_in))
       \<and> \<not> spec_half_open_overlap b_in b_out b_out (b_out + (s_out - s_in))
       \<and> \<not> date_filter b_in b_out (b_in - (s_out - s_in)) b_in
       \<and> \<not> spec_half_open_overlap b_in b_out (b_in - (s_out - s_in)) b_in"
  using assms unfolding date_filter_def spec_half_open_overlap_def by auto

text \<open>
  The stays \<open>[1, 5)\<close> and \<open>[5, 8)\<close> touch and do not overlap.
\<close>

theorem three_way_filter_is_half_open_overlap_witness:
  "(1::int) < 5 \<and> (5::int) < 8
   \<and> (date_filter 1 5 5 8 \<longleftrightarrow> spec_half_open_overlap 1 5 5 8)
   \<and> \<not> date_filter 1 5 5 8 \<and> \<not> spec_half_open_overlap 1 5 5 8
   \<and> \<not> date_filter 1 5 (-2) 1 \<and> \<not> spec_half_open_overlap 1 5 (-2) 1"
  using three_way_filter_is_half_open_overlap [of 1 5 5 8] by simp

section \<open>The cancellation charge\<close>

text \<open>
  Claim C3. With \<open>days = check_in_date - now.date()\<close>: the charge is 0 when
  \<open>days \<ge> 2\<close>, half of \<open>total_amount\<close> when \<open>0 \<le> days < 2\<close>, and \<open>total_amount\<close> when
  \<open>days < 0\<close>; the refund \<open>total_amount - charge\<close> of \<open>cancel_booking\<close> adds up with the
  charge to \<open>total_amount\<close> exactly, and is not negative when \<open>total_amount\<close> is not.
\<close>

theorem cancellation_policy:
  fixes b :: Booking and now :: datetime
  defines "days \<equiv> check_in_date b - dt_date now"
  defines "charge \<equiv> calculate_cancellation_charge b (dt_date now)"
  defines "refund \<equiv> total_amount b - charge"
  shows "(days \<ge> 2 \<longrightarrow> charge = 0)
       \<and> (0 \<le> days \<and> days < 2 \<longrightarrow> charge = total_amount b / 2)
       \<and> (days < 0 \<longrightarrow> charge = total_amount b)
       \<and> refund + charge = total_amount b
       \<and> (0 \<le> total_amount b \<longrightarrow> 0 \<le> refund)"
  unfolding days_def charge_def refund_def calculate_cancellation_charge_def cancellation_charge_of_def
  by (auto simp: Let_def)

text \<open>
  The boundary days 2, 1, 0 and -1 on an amount of 200.
\<close>

theorem cancellation_policy_witness:
  "calculate_cancellation_charge (stay_booking\<lparr>check_in_date := 12\<rparr>) (dt_date noon) = 0
   \<and> calculate_cancellation_charge (stay_booking\<lparr>check_in_date := 11\<rparr>) (dt_date noon) = 100
   \<and> calculate_cancellation_charge (stay_booking\<lparr>check_in_date := 10\<rparr>) (dt_date noon) = 100
   \<and> calculate_cancellation_charge (stay_booking\<lparr>check_in_date := 9\<rparr>) (dt_date noon) = 200
   \<and> (0::rat) \<le> total_amount stay_booking
   \<and> 0 \<le> total_amount stay_booking
          - calculate_cancellation_charge (stay_booking\<lparr>check_in_date := 9\<rparr>) (dt_date noon)"
  using cancellation_policy [of "stay_booking\<lparr>check_in_date := 12\<rparr>" noon]
        cancellation_policy [of "stay_booking\<lparr>check_in_date := 11\<rparr>" noon]
        cancellation_policy [of "stay_booking\<lparr>check_in_date := 10\<rparr>" noon]
        cancellation_policy [of "stay_booking\<lparr>check_in_date := 9\<rparr>" noon]
  by (simp add: stay_booking_def noon_def)

section \<open>Transitions that the routes do not guard\<close>

text \<open>
  Claim C4 fails on the code: \<open>confirm_booking\<close> has no status guard, and a \<open>CANCELLED\<close>
  booking is moved to \<open>CONFIRMED\<close>.
\<close>

theorem confirm_booking_from_cancelled:
  "b_status (stay_booking\<lparr>b_status := CANCELLED\<rparr>) = CANCELLED
   \<and> confirm_booking (hotel_with [stay_booking\<lparr>b_status := CANCELLED\<rparr>]) 1
       = Inr (hotel_with [stay_booking\<lparr>b_status := CONFIRMED\<rparr>])"
  by (simp add: confirm_booking_def booking_query_get_def commit_booking_def hotel_with_def
      stay_booking_def)

text \<open>
  Claim C6 fails on the code: \<open>create_booking\<close> checks neither the date range nor the
  occupancy (and never reads today's date). A request with check-out on the check-in day,
  for five guests in a room type for two, is stored as a \<open>PENDING\<close> booking.
\<close>

theorem create_booking_without_guards:
  "\<not> req_check_out empty_stay_request > req_check_in empty_stay_request
   \<and> \<not> max_occupancy standard_type \<ge> req_num_guests empty_stay_request
   \<and> create_booking empty_hotel empty_stay_request ''BK20240301ABC123''
       = Inr (empty_stay_booking, hotel_with [empty_stay_booking])
   \<and> b_status empty_stay_booking = PENDING"
  by (simp add: create_booking_def new_guest_def new_booking_def varchar_def numeric_10_2_def
      integer_column_def floor_eq_iff empty_hotel_def empty_stay_request_def stay_request_def
      empty_stay_booking_def stay_booking_def hotel_with_def the_guest_def standard_type_def
      next_id_def Let_def)

text \<open>
  Claim C9 fails on the code. The booking that \<open>create_booking\<close> stores for the request
  above has \<open>check_out_date = check_in_date\<close>. And a booking created, confirmed, checked
  in and confirmed again is \<open>CONFIRMED\<close> with a room assigned (here room 102, the row that
  the query of \<open>check_in\<close> returns under plan 0; were it the row of room 101, the booking
  would end \<open>CONFIRMED\<close> with room 101).
\<close>

theorem invariant_broken_by_lifecycle:
  "create_booking empty_hotel empty_stay_request ''BK20240301ABC123''
       = Inr (empty_stay_booking, hotel_with [empty_stay_booking])
   \<and> \<not> spec_booking_invariant empty_stay_booking
   \<and> create_booking empty_hotel stay_request ''BK20240301ABC123''
       = Inr (stay_booking, hotel_with [stay_booking])
   \<and> confirm_booking (hotel_with [stay_booking]) 1
       = Inr (hotel_with [stay_booking\<lparr>b_status := CONFIRMED\<rparr>])
   \<and> check_in (hotel_with [stay_booking\<lparr>b_status := CONFIRMED\<rparr>]) 1 None 0 noon
       = Inr (commit_room_status
               (hotel_with [stay_booking\<lparr>b_room_id := Some 1, b_status := CHECKED_IN,
                                         actual_check_in := Some noon\<rparr>]) 1 OCCUPIED)
   \<and> confirm_booking
        (commit_room_status
           (hotel_with [stay_booking\<lparr>b_room_id := Some 1, b_status := CHECKED_IN,
                                     actual_check_in := Some noon\<rparr>]) 1 OCCUPIED) 1
       = Inr (commit_room_status
               (hotel_with [stay_booking\<lparr>b_room_id := Some 1, b_status := CONFIRMED,
                                         actual_check_in := Some noon\<rparr>]) 1 OCCUPIED)
   \<and> \<not> spec_booking_invariant (stay_booking\<lparr>b_room_id := Some 1, b_status := CONFIRMED,
                                            actual_check_in := Some noon\<rparr>)"
  by (simp add: create_booking_def new_guest_def new_booking_def varchar_def numeric_10_2_def
      integer_column_def floor_eq_iff empty_hotel_def empty_stay_request_def stay_request_def
      empty_stay_booking_def stay_booking_def hotel_with_def the_guest_def standard_type_def
      next_id_def Let_def spec_booking_invariant_def confirm_booking_def booking_query_get_def
      commit_booking_def check_in_def resolve_room_id_def first_clean_room_def clean_room_of_def
      room_query_get_def commit_room_status_def room_102_def room_101_def)

section \<open>Cancellation, check-out and check-in\<close>

text \<open>
  What \<open>cancel_booking\<close> does on a stored booking: it refuses a \<open>CANCELLED\<close> one, and
  otherwise answers with the charge of the policy and the refund \<open>total_amount - charge\<close>
  and stores status \<open>CANCELLED\<close>, \<open>cancelled_at\<close>, the reason and the refund in cents;
  rooms and tasks are untouched.
\<close>

lemma cancel_booking_result:
  assumes "booking_query_get st bid = Some b"
  shows "(b_status b = CANCELLED \<longrightarrow>
            cancel_booking st bid reason policy_now now = Inl IllegalTransition)
       \<and> (b_status b \<noteq> CANCELLED \<longrightarrow>
            (\<forall>stored. numeric_10_2 (total_amount b
                          - calculate_cancellation_charge b (dt_date policy_now)) = Some stored \<longrightarrow>
               (\<exists>st'. cancel_booking st bid reason policy_now now
                        = Inr (calculate_cancellation_charge b (dt_date policy_now),
                               total_amount b
                                 - calculate_cancellation_charge b (dt_date policy_now), st')
                    \<and> booking_query_get st' bid
                        = Some (b\<lparr>b_status := CANCELLED, cancelled_at := Some now,
                                  cancellation_reason := reason, refund_amount := Some stored\<rparr>)
                    \<and> rooms st' = rooms st \<and> tasks st' = tasks st)))"
proof -
  let ?charge = "calculate_cancellation_charge b (dt_date policy_now)"
  have bad: "b_status b = CANCELLED \<longrightarrow>
      cancel_booking st bid reason policy_now now = Inl IllegalTransition"
    using assms by (simp add: cancel_booking_def)
  have good: "\<exists>st'. cancel_booking st bid reason policy_now now
                        = Inr (?charge, total_amount b - ?charge, st')
                    \<and> booking_query_get st' bid
                        = Some (b\<lparr>b_status := CANCELLED, cancelled_at := Some now,
                                  cancellation_reason := reason, refund_amount := Some stored\<rparr>)
                    \<and> rooms st' = rooms st \<and> tasks st' = tasks st"
    if live: "b_status b \<noteq> CANCELLED" and cents: "numeric_10_2 (total_amount b - ?charge) = Some stored"
    for stored
  proof -
    let ?b' = "b\<lparr>b_status := CANCELLED, cancelled_at := Some now, cancellation_reason := reason,
                 refund_amount := Some stored\<rparr>"
    have id: "b_id ?b' = bid" using assms by (simp add: booking_query_get_id)
    have found: "booking_query_get (commit_booking st ?b') bid = Some ?b'"
      using assms id by (rule booking_query_get_commit)
    have rest: "rooms (commit_booking st ?b') = rooms st" "tasks (commit_booking st ?b') = tasks st"
      by (simp_all add: commit_booking_def)
    have run: "cancel_booking st bid reason policy_now now
        = Inr (?charge, total_amount b - ?charge, commit_booking st ?b')"
      using assms live cents by (simp add: cancel_booking_def Let_def)
    from run found rest show ?thesis by blast
  qed
  from bad good show ?thesis by blast
qed

text \<open>
  The stored refund is in cents: half of 99.99 is 49.995 in the response and 50.00 in
  the \<open>refund_amount\<close> column.
\<close>

lemma cancel_booking_stores_cents:
  "cancel_booking (hotel_with [stay_booking\<lparr>total_amount := 9999 / 100\<rparr>]) 1 None noon noon
     = Inr (9999 / 200, 9999 / 200,
            hotel_with [stay_booking\<lparr>total_amount := 9999 / 100, b_status := CANCELLED,
                                      cancelled_at := Some noon, refund_amount := Some 50\<rparr>])"
  by (simp add: cancel_booking_def calculate_cancellation_charge_def cancellation_charge_of_def
      numeric_10_2_def floor_eq_iff booking_query_get_def commit_booking_def hotel_with_def
      empty_hotel_def stay_booking_def noon_def Let_def)

text \<open>
  Claim C5 fails on the code: the only status guard of \<open>cancel_booking\<close> is the one on
  \<open>CANCELLED\<close>. The booking that is checked in to room 102 is cancelled with half of the
  amount refunded; the room stays \<open>OCCUPIED\<close>, and neither \<open>check_out\<close> nor \<open>check_in\<close>
  accepts the booking any more.
\<close>

theorem cancel_booking_while_checked_in:
  "booking_query_get checked_in_hotel 1 = Some checked_in_stay
   \<and> b_status checked_in_stay = CHECKED_IN
   \<and> cancel_booking checked_in_hotel 1 None noon noon = Inr (100, 100, cancelled_in_house)
   \<and> room_query_get cancelled_in_house 1 = Some (room_102\<lparr>r_status := OCCUPIED\<rparr>)
   \<and> check_out cancelled_in_house 1 noon = Inl IllegalTransition
   \<and> check_in cancelled_in_house 1 None 0 noon = Inl IllegalTransition"
  by (simp add: cancel_booking_def calculate_cancellation_charge_def cancellation_charge_of_def
      numeric_10_2_def floor_eq_iff booking_query_get_def room_query_get_def commit_booking_def
      commit_room_status_def check_out_def check_in_def checked_in_hotel_def checked_in_stay_def
      cancelled_in_house_def hotel_with_def empty_hotel_def stay_booking_def room_102_def
      room_101_def noon_def)

text \<open>
  A successful \<open>check_in\<close> is the only way into \<open>CHECKED_IN\<close>, and it leaves the booking
  with a \<open>room_id\<close> whose row exists.
\<close>

lemma check_in_leaves_room_assigned:
  assumes "check_in st bid requested plan now = Inr st'"
  shows "\<exists>b' rid room. booking_query_get st' bid = Some b' \<and> b_status b' = CHECKED_IN
           \<and> b_room_id b' = Some rid \<and> room_query_get st' rid = Some room"
proof -
  from assms obtain b where b: "booking_query_get st bid = Some b"
    by (auto simp: check_in_def split: option.splits)
  from assms b obtain rid where rid: "resolve_room_id st b requested plan = Inr rid"
    by (auto simp: check_in_def split: option.splits if_splits sum.splits)
  from assms b rid obtain i room where i: "rid = Some i" "room_query_get st i = Some room"
    by (auto simp: check_in_def split: option.splits if_splits)
  let ?b' = "b\<lparr>b_room_id := rid, b_status := CHECKED_IN, actual_check_in := Some now\<rparr>"
  have st': "st' = commit_room_status (commit_booking st ?b') (r_id room) OCCUPIED"
    using assms b rid i by (auto simp: check_in_def split: if_splits)
  have id: "b_id ?b' = bid" using b by (simp add: booking_query_get_id)
  have bk: "booking_query_get st' bid = Some ?b'"
    unfolding st' using booking_query_get_commit [OF b id] by simp
  have rm: "room_query_get (commit_booking st ?b') i = Some room" using i by simp
  have "room_query_get st' i = Some (room\<lparr>r_status := OCCUPIED\<rparr>)"
    unfolding st' using room_query_get_commit [OF rm, of OCCUPIED] room_query_get_id [OF i(2)]
    by simp
  with bk i show ?thesis by simp
qed

text \<open>
  Claim C8. \<open>check_out\<close> on an existing booking whose status is not \<open>CHECKED_IN\<close> fails
  with \<open>IllegalTransition\<close>. On a \<open>CHECKED_IN\<close> booking it succeeds and stores status
  \<open>CHECKED_OUT\<close> and \<open>actual_check_out = now\<close>; the assigned room (the row that \<open>room_id\<close>
  refers to, which \<open>check_in\<close> leaves in place) becomes \<open>VACANT_DIRTY\<close>, and exactly one
  task is added, for that room, with type \<open>cleaning\<close>, priority \<open>normal\<close> and status
  \<open>pending\<close>.
\<close>

theorem check_out_effects:
  assumes "booking_query_get st bid = Some b"
  shows "(b_status b \<noteq> CHECKED_IN \<longrightarrow> check_out st bid now = Inl IllegalTransition)
       \<and> (b_status b = CHECKED_IN \<longrightarrow>
            (\<exists>st'. check_out st bid now = Inr st'
               \<and> booking_query_get st' bid
                   = Some (b\<lparr>b_status := CHECKED_OUT, actual_check_out := Some now\<rparr>)
               \<and> (\<forall>rid room. b_room_id b = Some rid \<and> room_query_get st rid = Some room \<longrightarrow>
                     room_query_get st' rid = Some (room\<lparr>r_status := VACANT_DIRTY\<rparr>)
                   \<and> tasks st' = tasks st @ [\<lparr>t_room_id = rid, task_type = ''cleaning'',
                                               t_priority = ''normal'', t_status = ''pending''\<rparr>])))"
proof -
  have id: "b_id b = bid" using assms by (rule booking_query_get_id)
  let ?b' = "b\<lparr>b_status := CHECKED_OUT, actual_check_out := Some now\<rparr>"
  let ?st1 = "commit_booking st ?b'"
  have bad: "b_status b \<noteq> CHECKED_IN \<longrightarrow> check_out st bid now = Inl IllegalTransition"
    using assms by (simp add: check_out_def)
  have bk1: "booking_query_get ?st1 bid = Some ?b'"
    using booking_query_get_commit [OF assms, of ?b'] id by simp
  have good: "\<exists>st'. check_out st bid now = Inr st'
               \<and> booking_query_get st' bid = Some ?b'
               \<and> (\<forall>rid room. b_room_id b = Some rid \<and> room_query_get st rid = Some room \<longrightarrow>
                     room_query_get st' rid = Some (room\<lparr>r_status := VACANT_DIRTY\<rparr>)
                   \<and> tasks st' = tasks st @ [\<lparr>t_room_id = rid, task_type = ''cleaning'',
                                               t_priority = ''normal'', t_status = ''pending''\<rparr>])"
    if ci: "b_status b = CHECKED_IN"
  proof (cases "case b_room_id b of None \<Rightarrow> None | Some rid \<Rightarrow> room_query_get st rid")
    case None
    then have run: "check_out st bid now = Inr ?st1"
      using assms ci by (simp add: check_out_def Let_def split: option.splits)
    have "\<forall>rid room. \<not> (b_room_id b = Some rid \<and> room_query_get st rid = Some room)"
      using None by (auto split: option.splits)
    with run bk1 show ?thesis by simp
  next
    case (Some room)
    then obtain rid where r: "b_room_id b = Some rid" and rm: "room_query_get st rid = Some room"
      by (auto split: option.splits)
    have rid: "r_id room = rid" using rm by (rule room_query_get_id)
    let ?st' = "(commit_room_status ?st1 rid VACANT_DIRTY)\<lparr>tasks := tasks ?st1 @ [cleaning_task rid]\<rparr>"
    have run: "check_out st bid now = Inr ?st'"
      using assms ci r rm rid by (simp add: check_out_def Let_def)
    have bk: "booking_query_get ?st' bid = Some ?b'"
      using bk1 by (simp add: booking_query_get_def commit_room_status_def)
    have rm1: "room_query_get ?st1 rid = Some room" using rm by simp
    have rq: "room_query_get ?st' rid = Some (room\<lparr>r_status := VACANT_DIRTY\<rparr>)"
      using room_query_get_commit [OF rm1, of VACANT_DIRTY]
      by (simp add: room_query_get_def)
    have tk: "tasks ?st' = tasks st @ [\<lparr>t_room_id = rid, task_type = ''cleaning'',
                                               t_priority = ''normal'', t_status = ''pending''\<rparr>]"
      by (simp add: cleaning_task_def)
    from run bk rq tk r rm show ?thesis by auto
  qed
  from bad good show ?thesis by blast
qed

text \<open>
  Check-out of a \<open>PENDING\<close> booking is refused; check-out of the booking in room 102
  leaves the room dirty and one cleaning task.
\<close>

theorem check_out_effects_witness:
  "booking_query_get (hotel_with [stay_booking]) 1 = Some stay_booking
   \<and> b_status stay_booking \<noteq> CHECKED_IN
   \<and> check_out (hotel_with [stay_booking]) 1 noon = Inl IllegalTransition
   \<and> booking_query_get (hotel_with [stay_booking\<lparr>b_room_id := Some 1, b_status := CHECKED_IN\<rparr>]) 1
       = Some (stay_booking\<lparr>b_room_id := Some 1, b_status := CHECKED_IN\<rparr>)
   \<and> room_query_get (hotel_with [stay_booking\<lparr>b_room_id := Some 1, b_status := CHECKED_IN\<rparr>]) 1
       = Some room_102
   \<and> check_out (hotel_with [stay_booking\<lparr>b_room_id := Some 1, b_status := CHECKED_IN\<rparr>]) 1 noon
       = Inr ((commit_room_status
                (hotel_with [stay_booking\<lparr>b_room_id := Some 1, b_status := CHECKED_OUT,
                                          actual_check_out := Some noon\<rparr>]) 1 VACANT_DIRTY)
              \<lparr>tasks := [\<lparr>t_room_id = 1, task_type = ''cleaning'', t_priority = ''normal'',
                          t_status = ''pending''\<rparr>]\<rparr>)"
proof -
  have a: "booking_query_get (hotel_with [stay_booking]) 1 = Some stay_booking"
    by (simp add: booking_query_get_def hotel_with_def stay_booking_def)
  have b: "booking_query_get (hotel_with [stay_booking\<lparr>b_room_id := Some 1, b_status := CHECKED_IN\<rparr>]) 1
       = Some (stay_booking\<lparr>b_room_id := Some 1, b_status := CHECKED_IN\<rparr>)"
    by (simp add: booking_query_get_def hotel_with_def stay_booking_def)
  have r: "room_query_get (hotel_with [stay_booking\<lparr>b_room_id := Some 1, b_status := CHECKED_IN\<rparr>]) 1
       = Some room_102"
    by (simp add: room_query_get_def hotel_with_def empty_hotel_def room_102_def)
  show ?thesis
    using check_out_effects [OF a, of noon] check_out_effects [OF b, of noon] a b r
    by (simp add: check_out_def Let_def commit_booking_def commit_room_status_def hotel_with_def
        empty_hotel_def stay_booking_def room_102_def room_101_def cleaning_task_def)
qed

section \<open>The room that check-in assigns\<close>

lemma first_clean_room_None:
  "first_clean_room st b plan = None \<longleftrightarrow> (\<forall>r \<in> set (rooms st). \<not> clean_room_of b r)"
proof -
  have "first_clean_room st b plan = None \<longleftrightarrow> filter (clean_room_of b) (rooms st) = []"
    by (simp add: first_clean_room_def split: list.splits)
  then show ?thesis by (simp add: filter_empty_conv)
qed

lemma first_clean_room_Some:
  assumes "first_clean_room st b plan = Some room"
  shows "room \<in> set (rooms st) \<and> clean_room_of b room"
proof -
  let ?xs = "filter (clean_room_of b) (rooms st)"
  from assms have ne: "?xs \<noteq> []" and room: "room = ?xs ! (plan mod length ?xs)"
    by (auto simp: first_clean_room_def split: list.splits)
  from ne have "plan mod length ?xs < length ?xs" by simp
  then have "?xs ! (plan mod length ?xs) \<in> set ?xs" by (rule nth_mem)
  with room show ?thesis by simp
qed

text \<open>Every matching room is one that the query may return.\<close>

lemma first_clean_room_any:
  assumes "room \<in> set (rooms st)" and "clean_room_of b room"
  shows "\<exists>plan. first_clean_room st b plan = Some room"
proof -
  let ?xs = "filter (clean_room_of b) (rooms st)"
  from assms have "room \<in> set ?xs" by simp
  then obtain i where i: "i < length ?xs" "?xs ! i = room"
    by (meson in_set_conv_nth)
  then have "first_clean_room st b i = Some room"
    by (cases ?xs) (simp_all add: first_clean_room_def)
  then show ?thesis ..
qed

text \<open>
  Claim C7, as the code has it. For a \<open>CONFIRMED\<close> booking with no room assigned and no
  room requested: if no room of the booking's hotel and room type is \<open>CLEAN_READY\<close> and
  not soft-deleted, \<open>check_in\<close> fails with \<open>NoRoomAvailable\<close>. Otherwise it takes one of
  those rooms, the one that the query returns (the query orders by nothing, whatever the
  room numbers), stores the booking \<open>CHECKED_IN\<close> with that room and
  \<open>actual_check_in = now\<close>, and sets the room \<open>OCCUPIED\<close>.
\<close>

theorem check_in_auto_assigns_a_clean_room:
  assumes "booking_query_get st bid = Some b" and "b_status b = CONFIRMED"
    and "\<not> truthy (b_room_id b)" and "\<not> truthy requested"
  shows "((\<forall>r \<in> set (rooms st). \<not> (r_hotel_id r = b_hotel_id b
                \<and> r_room_type_id r = b_room_type_id b
                \<and> r_status r = CLEAN_READY \<and> \<not> r_is_deleted r)) \<longrightarrow>
            check_in st bid requested plan now = Inl NoRoomAvailable)
       \<and> ((\<exists>r \<in> set (rooms st). r_hotel_id r = b_hotel_id b
                \<and> r_room_type_id r = b_room_type_id b
                \<and> r_status r = CLEAN_READY \<and> \<not> r_is_deleted r) \<longrightarrow>
            (\<exists>room st' r'. room \<in> set (rooms st)
                \<and> r_hotel_id room = b_hotel_id b \<and> r_room_type_id room = b_room_type_id b
                \<and> r_status room = CLEAN_READY \<and> \<not> r_is_deleted room
                \<and> check_in st bid requested plan now = Inr st'
                \<and> booking_query_get st' bid
                    = Some (b\<lparr>b_room_id := Some (r_id room), b_status := CHECKED_IN,
                              actual_check_in := Some now\<rparr>)
                \<and> room_query_get st' (r_id room) = Some r' \<and> r_status r' = OCCUPIED
                \<and> tasks st' = tasks st))"
proof -
  have none: "check_in st bid requested plan now = Inl NoRoomAvailable"
    if "\<forall>r \<in> set (rooms st). \<not> (r_hotel_id r = b_hotel_id b
                \<and> r_room_type_id r = b_room_type_id b
                \<and> r_status r = CLEAN_READY \<and> \<not> r_is_deleted r)"
  proof -
    from that have "first_clean_room st b plan = None"
      unfolding first_clean_room_None by (simp add: clean_room_of_def)
    with assms show ?thesis by (simp add: check_in_def resolve_room_id_def)
  qed
  have some: "\<exists>room st' r'. room \<in> set (rooms st)
                \<and> r_hotel_id room = b_hotel_id b \<and> r_room_type_id room = b_room_type_id b
                \<and> r_status room = CLEAN_READY \<and> \<not> r_is_deleted room
                \<and> check_in st bid requested plan now = Inr st'
                \<and> booking_query_get st' bid
                    = Some (b\<lparr>b_room_id := Some (r_id room), b_status := CHECKED_IN,
                              actual_check_in := Some now\<rparr>)
                \<and> room_query_get st' (r_id room) = Some r' \<and> r_status r' = OCCUPIED
                \<and> tasks st' = tasks st"
    if "\<exists>r \<in> set (rooms st). r_hotel_id r = b_hotel_id b
                \<and> r_room_type_id r = b_room_type_id b
                \<and> r_status r = CLEAN_READY \<and> \<not> r_is_deleted r"
  proof -
    from that have "first_clean_room st b plan \<noteq> None"
      unfolding first_clean_room_None by (auto simp: clean_room_of_def)
    then obtain room where fc: "first_clean_room st b plan = Some room" by blast
    from first_clean_room_Some [OF fc]
    have mem: "room \<in> set (rooms st)"
      and cand: "r_hotel_id room = b_hotel_id b" "r_room_type_id room = b_room_type_id b"
        "r_status room = CLEAN_READY" "\<not> r_is_deleted room"
      by (simp_all add: clean_room_of_def)
    from mem obtain r0 where r0: "room_query_get st (r_id room) = Some r0"
      unfolding room_query_get_def by (cases "find (\<lambda>r. r_id r = r_id room) (rooms st)")
        (auto simp: find_None_iff)
    let ?b' = "b\<lparr>b_room_id := Some (r_id room), b_status := CHECKED_IN, actual_check_in := Some now\<rparr>"
    let ?st' = "commit_room_status (commit_booking st ?b') (r_id r0) OCCUPIED"
    have r0id: "r_id r0 = r_id room" using r0 by (rule room_query_get_id)
    have run: "check_in st bid requested plan now = Inr ?st'"
      using assms fc r0 by (simp add: check_in_def resolve_room_id_def)
    have id: "b_id ?b' = bid" using assms(1) by (simp add: booking_query_get_id)
    have bk: "booking_query_get ?st' bid = Some ?b'"
      using booking_query_get_commit [OF assms(1) id] by simp
    have r1: "room_query_get (commit_booking st ?b') (r_id room) = Some r0" using r0 by simp
    have rq: "room_query_get ?st' (r_id room) = Some (r0\<lparr>r_status := OCCUPIED\<rparr>)"
      using room_query_get_commit [OF r1, of OCCUPIED] r0id by simp
    have tk: "tasks ?st' = tasks st" by simp
    from mem cand run bk rq tk show ?thesis
      by (intro exI [of _ room] exI [of _ ?st'] exI [of _ "r0\<lparr>r_status := OCCUPIED\<rparr>"]) simp
  qed
  from none some show ?thesis by blast
qed

text \<open>
  With a dirty room 103 and a soft-deleted room 104 before the clean rooms 102 and 101,
  the booking gets room 102 or room 101, whichever the query returns, and never 103 or
  104; with only rooms 103 and 104 the check-in is refused.
\<close>

theorem check_in_auto_assigns_a_clean_room_witness:
  "booking_query_get (four_rooms [stay_booking\<lparr>b_status := CONFIRMED\<rparr>]) 1
     = Some (stay_booking\<lparr>b_status := CONFIRMED\<rparr>)
   \<and> b_status (stay_booking\<lparr>b_status := CONFIRMED\<rparr>) = CONFIRMED
   \<and> \<not> truthy (b_room_id (stay_booking\<lparr>b_status := CONFIRMED\<rparr>))
   \<and> \<not> truthy None
   \<and> check_in (four_rooms [stay_booking\<lparr>b_status := CONFIRMED\<rparr>]) 1 None 0 noon
       = Inr (commit_room_status
               (four_rooms [stay_booking\<lparr>b_room_id := Some 1, b_status := CHECKED_IN,
                                         actual_check_in := Some noon\<rparr>]) 1 OCCUPIED)
   \<and> check_in (four_rooms [stay_booking\<lparr>b_status := CONFIRMED\<rparr>]) 1 None 1 noon
       = Inr (commit_room_status
               (four_rooms [stay_booking\<lparr>b_room_id := Some 2, b_status := CHECKED_IN,
                                         actual_check_in := Some noon\<rparr>]) 2 OCCUPIED)
   \<and> booking_query_get (no_clean_room [stay_booking\<lparr>b_status := CONFIRMED\<rparr>]) 1
     = Some (stay_booking\<lparr>b_status := CONFIRMED\<rparr>)
   \<and> check_in (no_clean_room [stay_booking\<lparr>b_status := CONFIRMED\<rparr>]) 1 None 0 noon
       = Inl NoRoomAvailable"
proof -
  let ?b = "stay_booking\<lparr>b_status := CONFIRMED\<rparr>"
  have a: "booking_query_get (four_rooms [?b]) 1 = Some ?b"
    by (simp add: booking_query_get_def four_rooms_def hotel_with_def stay_booking_def)
  have a2: "booking_query_get (no_clean_room [?b]) 1 = Some ?b"
    by (simp add: booking_query_get_def no_clean_room_def hotel_with_def stay_booking_def)
  have s: "b_status ?b = CONFIRMED" by simp
  have t: "\<not> truthy (b_room_id ?b)" by (simp add: stay_booking_def)
  have n: "\<not> truthy None" by simp
  have run0: "check_in (four_rooms [?b]) 1 None 0 noon
       = Inr (commit_room_status
               (four_rooms [stay_booking\<lparr>b_room_id := Some 1, b_status := CHECKED_IN,
                                         actual_check_in := Some noon\<rparr>]) 1 OCCUPIED)"
    by (simp add: check_in_def resolve_room_id_def first_clean_room_def clean_room_of_def
        booking_query_get_def room_query_get_def commit_booking_def commit_room_status_def
        four_rooms_def hotel_with_def empty_hotel_def room_101_def room_102_def room_103_def
        room_104_def stay_booking_def)
  have run1: "check_in (four_rooms [?b]) 1 None 1 noon
       = Inr (commit_room_status
               (four_rooms [stay_booking\<lparr>b_room_id := Some 2, b_status := CHECKED_IN,
                                         actual_check_in := Some noon\<rparr>]) 2 OCCUPIED)"
    by (simp add: check_in_def resolve_room_id_def first_clean_room_def clean_room_of_def
        booking_query_get_def room_query_get_def commit_booking_def commit_room_status_def
        four_rooms_def hotel_with_def empty_hotel_def room_101_def room_102_def room_103_def
        room_104_def stay_booking_def)
  have none: "\<forall>r \<in> set (rooms (no_clean_room [?b])).
      \<not> (r_hotel_id r = b_hotel_id ?b \<and> r_room_type_id r = b_room_type_id ?b
         \<and> r_status r = CLEAN_READY \<and> \<not> r_is_deleted r)"
    by (simp add: no_clean_room_def hotel_with_def room_103_def room_104_def)
  have refused: "check_in (no_clean_room [?b]) 1 None 0 noon = Inl NoRoomAvailable"
    using check_in_auto_assigns_a_clean_room [OF a2 s t n, of 0 noon] none by blast
  show ?thesis
    using check_in_auto_assigns_a_clean_room [OF a s t n, of 0 noon] a a2 s t run0 run1 refused
    by simp
qed

text \<open>
  The room taken need not be the one with the smallest number. Rooms 102 and 101 are
  both clean, of the booking's type and hotel and not soft-deleted; when the query
  returns the row of room 102 (plan 0: the row inserted first, as under a sequential
  scan), \<open>check_in\<close> assigns room 102 although 101 is the smaller number.
\<close>

theorem check_in_room_number_counterexample:
  "check_in (hotel_with [stay_booking\<lparr>b_status := CONFIRMED\<rparr>]) 1 None 0 noon
       = Inr (commit_room_status
               (hotel_with [stay_booking\<lparr>b_room_id := Some (r_id room_102), b_status := CHECKED_IN,
                                         actual_check_in := Some noon\<rparr>]) (r_id room_102) OCCUPIED)
   \<and> room_101 \<in> set (rooms (hotel_with [stay_booking\<lparr>b_status := CONFIRMED\<rparr>]))
   \<and> r_hotel_id room_101 = b_hotel_id (stay_booking\<lparr>b_status := CONFIRMED\<rparr>)
   \<and> r_room_type_id room_101 = b_room_type_id (stay_booking\<lparr>b_status := CONFIRMED\<rparr>)
   \<and> r_status room_101 = CLEAN_READY \<and> \<not> r_is_deleted room_101
   \<and> room_number room_101 < room_number room_102"
  by (simp add: check_in_def resolve_room_id_def first_clean_room_def clean_room_of_def
      booking_query_get_def room_query_get_def commit_booking_def commit_room_status_def
      hotel_with_def empty_hotel_def room_102_def room_101_def stay_booking_def)

section \<open>The soft-delete flag\<close>

lemma find_map_flag:
  "(\<And>x. f (g x) = f x) \<Longrightarrow>
   find (\<lambda>x. f x = k) (map (\<lambda>x. if f x = k then g x else x) xs)
     = map_option g (find (\<lambda>x. f x = k) xs)"
  by (induction xs) auto

lemma booking_query_get_mark_deleted:
  "booking_query_get (mark_deleted flag bid st) bid
     = map_option (\<lambda>b. b\<lparr>b_is_deleted := flag\<rparr>) (booking_query_get st bid)"
  unfolding booking_query_get_def mark_deleted_def
  using find_map_flag [where f = b_id and g = "\<lambda>b. b\<lparr>b_is_deleted := flag\<rparr>"]
  by simp

lemma mark_deleted_other_tables [simp]:
  "rooms (mark_deleted flag bid st) = rooms st"
  "tasks (mark_deleted flag bid st) = tasks st"
  "room_query_get (mark_deleted flag bid st) rid = room_query_get st rid"
  by (simp_all add: mark_deleted_def room_query_get_def)

lemma mark_deleted_twice: "mark_deleted f bid (mark_deleted g bid st) = mark_deleted f bid st"
  by (simp add: mark_deleted_def comp_def if_distrib cong: if_cong)

lemma commit_booking_mark_deleted:
  "b_id b' = bid \<Longrightarrow> commit_booking (mark_deleted flag bid st) b' = commit_booking st b'"
  by (auto simp: mark_deleted_def commit_booking_def)

lemma mark_deleted_commit_booking:
  "b_id b' = bid \<Longrightarrow>
   mark_deleted flag bid (commit_booking st b') = commit_booking st (b'\<lparr>b_is_deleted := flag\<rparr>)"
  by (auto simp: mark_deleted_def commit_booking_def)

lemma mark_deleted_commit_room_status:
  "mark_deleted flag bid (commit_room_status st rid s)
     = commit_room_status (mark_deleted flag bid st) rid s"
  by (simp add: mark_deleted_def commit_room_status_def)

lemma mark_deleted_tasks_update:
  "mark_deleted flag bid (st\<lparr>tasks := ts\<rparr>) = (mark_deleted flag bid st)\<lparr>tasks := ts\<rparr>"
  by (simp add: mark_deleted_def)

lemma first_clean_room_mark_deleted:
  "first_clean_room (mark_deleted flag bid st) (b\<lparr>b_is_deleted := flag\<rparr>) plan
     = first_clean_room st b plan"
  by (simp add: first_clean_room_def clean_room_of_def [abs_def])

lemma resolve_room_id_mark_deleted:
  "resolve_room_id (mark_deleted flag bid st) (b\<lparr>b_is_deleted := flag\<rparr>) requested plan
     = resolve_room_id st b requested plan"
  by (simp add: resolve_room_id_def first_clean_room_mark_deleted)

lemma deleted_update_last:
  "b_status_update g1 (b_is_deleted_update f b) = b_is_deleted_update f (b_status_update g1 b)"
  "b_room_id_update g2 (b_is_deleted_update f b) = b_is_deleted_update f (b_room_id_update g2 b)"
  "actual_check_in_update g3 (b_is_deleted_update f b)
     = b_is_deleted_update f (actual_check_in_update g3 b)"
  "actual_check_out_update g3 (b_is_deleted_update f b)
     = b_is_deleted_update f (actual_check_out_update g3 b)"
  "cancelled_at_update g3 (b_is_deleted_update f b) = b_is_deleted_update f (cancelled_at_update g3 b)"
  "cancellation_reason_update g4 (b_is_deleted_update f b)
     = b_is_deleted_update f (cancellation_reason_update g4 b)"
  "refund_amount_update g5 (b_is_deleted_update f b)
     = b_is_deleted_update f (refund_amount_update g5 b)"
  by (cases b; simp)+

lemma confirm_booking_mark_deleted:
  "confirm_booking (mark_deleted flag bid st) bid
     = map_sum id (mark_deleted flag bid) (confirm_booking st bid)"
proof (cases "booking_query_get st bid")
  case None
  then show ?thesis by (simp add: confirm_booking_def booking_query_get_mark_deleted)
next
  case (Some b)
  then have id: "b_id b = bid" by (rule booking_query_get_id)
  show ?thesis
    using Some id
    by (simp add: confirm_booking_def booking_query_get_mark_deleted
        commit_booking_mark_deleted mark_deleted_commit_booking deleted_update_last)
qed

lemma cancel_booking_mark_deleted:
  "cancel_booking (mark_deleted flag bid st) bid reason policy_now now
     = map_sum id (\<lambda>(charge, refund, s). (charge, refund, mark_deleted flag bid s))
         (cancel_booking st bid reason policy_now now)"
proof (cases "booking_query_get st bid")
  case None
  then show ?thesis by (simp add: cancel_booking_def booking_query_get_mark_deleted)
next
  case (Some b)
  then have id: "b_id b = bid" by (rule booking_query_get_id)
  show ?thesis
    using Some id
    by (simp add: cancel_booking_def booking_query_get_mark_deleted Let_def
        calculate_cancellation_charge_def
        commit_booking_mark_deleted mark_deleted_commit_booking deleted_update_last
        split: option.splits)
qed

lemma check_in_mark_deleted:
  "check_in (mark_deleted flag bid st) bid requested plan now
     = map_sum id (mark_deleted flag bid) (check_in st bid requested plan now)"
proof (cases "booking_query_get st bid")
  case None
  then show ?thesis by (simp add: check_in_def booking_query_get_mark_deleted)
next
  case (Some b)
  then have id: "b_id b = bid" by (rule booking_query_get_id)
  show ?thesis
    using Some id
    by (simp add: check_in_def booking_query_get_mark_deleted resolve_room_id_mark_deleted
        commit_booking_mark_deleted mark_deleted_commit_booking mark_deleted_commit_room_status
        deleted_update_last
        split: sum.splits option.splits)
qed

lemma check_out_mark_deleted:
  "check_out (mark_deleted flag bid st) bid now
     = map_sum id (mark_deleted flag bid) (check_out st bid now)"
proof (cases "booking_query_get st bid")
  case None
  then show ?thesis by (simp add: check_out_def booking_query_get_mark_deleted)
next
  case (Some b)
  then have id: "b_id b = bid" by (rule booking_query_get_id)
  show ?thesis
    using Some id
    by (simp add: check_out_def booking_query_get_mark_deleted Let_def
        commit_booking_mark_deleted mark_deleted_commit_booking mark_deleted_commit_room_status
        mark_deleted_tasks_update deleted_update_last
        split: sum.splits option.splits)
qed

lemma find_unique_key:
  "distinct (map f xs) \<Longrightarrow> find (\<lambda>x. f x = k) xs = Some y \<Longrightarrow> x \<in> set xs \<Longrightarrow> f x = k
   \<Longrightarrow> x = y"
  by (induction xs) (auto split: if_splits dest: find_key_eq)

lemma mark_deleted_same:
  assumes "distinct (map b_id (bookings st))" and "booking_query_get st bid = Some b"
    and "b_is_deleted b = flag"
  shows "mark_deleted flag bid st = st"
proof -
  have "map (\<lambda>x. if b_id x = bid then x\<lparr>b_is_deleted := flag\<rparr> else x) (bookings st)
          = map (\<lambda>x. x) (bookings st)"
  proof (rule map_cong [OF refl])
    fix x assume "x \<in> set (bookings st)"
    then show "(if b_id x = bid then x\<lparr>b_is_deleted := flag\<rparr> else x) = x"
      using find_unique_key [OF assms(1), of bid b x] assms(2,3)
      by (auto simp: booking_query_get_def)
  qed
  then show ?thesis by (simp add: mark_deleted_def)
qed

text \<open>
  Claim C10. For a stored booking with \<open>is_deleted = True\<close> (primary keys being
  distinct), \<open>get_booking\<close> answers \<open>NotFound\<close>, and would answer with the booking if the
  flag were clear. Each of \<open>confirm_booking\<close>, \<open>cancel_booking\<close>, \<open>check_in\<close> and
  \<open>check_out\<close> answers what it answers on the store where the flag is clear, with the
  flag set again in the resulting store; none of them answers \<open>NotFound\<close>.
\<close>

theorem transitions_ignore_soft_delete:
  assumes "distinct (map b_id (bookings st))" and "booking_query_get st bid = Some b"
    and "b_is_deleted b"
  shows "get_booking st bid = Inl NotFound
       \<and> get_booking (mark_deleted False bid st) bid = Inr (b\<lparr>b_is_deleted := False\<rparr>)
       \<and> confirm_booking st bid
           = map_sum id (mark_deleted True bid) (confirm_booking (mark_deleted False bid st) bid)
       \<and> cancel_booking st bid reason policy_now now
           = map_sum id (\<lambda>(charge, refund, s). (charge, refund, mark_deleted True bid s))
               (cancel_booking (mark_deleted False bid st) bid reason policy_now now)
       \<and> check_in st bid requested plan now
           = map_sum id (mark_deleted True bid) (check_in (mark_deleted False bid st) bid requested plan now)
       \<and> check_out st bid now
           = map_sum id (mark_deleted True bid) (check_out (mark_deleted False bid st) bid now)
       \<and> confirm_booking st bid \<noteq> Inl NotFound
       \<and> cancel_booking st bid reason policy_now now \<noteq> Inl NotFound
       \<and> check_in st bid requested plan now \<noteq> Inl NotFound
       \<and> check_out st bid now \<noteq> Inl NotFound"
proof -
  have same: "mark_deleted True bid (mark_deleted False bid st) = st"
    using mark_deleted_same [OF assms(1,2), of True] assms(3) by (simp add: mark_deleted_twice)
  have g1: "get_booking st bid = Inl NotFound"
    using assms by (simp add: get_booking_def)
  have g2: "get_booking (mark_deleted False bid st) bid = Inr (b\<lparr>b_is_deleted := False\<rparr>)"
    using assms by (simp add: get_booking_def booking_query_get_mark_deleted)
  have c1: "confirm_booking st bid
           = map_sum id (mark_deleted True bid) (confirm_booking (mark_deleted False bid st) bid)"
    using confirm_booking_mark_deleted [of True bid "mark_deleted False bid st"] same by simp
  have c2: "cancel_booking st bid reason policy_now now
           = map_sum id (\<lambda>(charge, refund, s). (charge, refund, mark_deleted True bid s))
               (cancel_booking (mark_deleted False bid st) bid reason policy_now now)"
    using cancel_booking_mark_deleted [of True bid "mark_deleted False bid st"] same by simp
  have c3: "check_in st bid requested plan now
           = map_sum id (mark_deleted True bid) (check_in (mark_deleted False bid st) bid requested plan now)"
    using check_in_mark_deleted [of True bid "mark_deleted False bid st"] same by simp
  have c4: "check_out st bid now
           = map_sum id (mark_deleted True bid) (check_out (mark_deleted False bid st) bid now)"
    using check_out_mark_deleted [of True bid "mark_deleted False bid st"] same by simp
  have n1: "confirm_booking st bid \<noteq> Inl NotFound"
    using assms by (simp add: confirm_booking_def)
  have n2: "cancel_booking st bid reason policy_now now \<noteq> Inl NotFound"
    using assms by (simp add: cancel_booking_def Let_def split: option.splits)
  have n3: "check_in st bid requested plan now \<noteq> Inl NotFound"
    using assms by (auto simp: check_in_def resolve_room_id_def split: sum.splits option.splits)
  have n4: "check_out st bid now \<noteq> Inl NotFound"
    using assms by (simp add: check_out_def Let_def split: option.splits)
  from g1 g2 c1 c2 c3 c4 n1 n2 n3 n4 show ?thesis by simp
qed

text \<open>
  A soft-deleted \<open>PENDING\<close> booking is not found by \<open>get_booking\<close>, is confirmed like the
  undeleted one, and is refused at check-out for its status, not for the flag.
\<close>

theorem transitions_ignore_soft_delete_witness:
  "distinct (map b_id (bookings (hotel_with [stay_booking\<lparr>b_is_deleted := True\<rparr>])))
   \<and> booking_query_get (hotel_with [stay_booking\<lparr>b_is_deleted := True\<rparr>]) 1
       = Some (stay_booking\<lparr>b_is_deleted := True\<rparr>)
   \<and> b_is_deleted (stay_booking\<lparr>b_is_deleted := True\<rparr>)
   \<and> get_booking (hotel_with [stay_booking\<lparr>b_is_deleted := True\<rparr>]) 1 = Inl NotFound
   \<and> mark_deleted False 1 (hotel_with [stay_booking\<lparr>b_is_deleted := True\<rparr>])
       = hotel_with [stay_booking]
   \<and> confirm_booking (hotel_with [stay_booking]) 1
       = Inr (hotel_with [stay_booking\<lparr>b_status := CONFIRMED\<rparr>])
   \<and> confirm_booking (hotel_with [stay_booking\<lparr>b_is_deleted := True\<rparr>]) 1
       = Inr (hotel_with [stay_booking\<lparr>b_status := CONFIRMED, b_is_deleted := True\<rparr>])
   \<and> check_out (hotel_with [stay_booking\<lparr>b_is_deleted := True\<rparr>]) 1 noon = Inl IllegalTransition"
proof -
  let ?st = "hotel_with [stay_booking\<lparr>b_is_deleted := True\<rparr>]"
  have d: "distinct (map b_id (bookings ?st))" by (simp add: hotel_with_def)
  have q: "booking_query_get ?st 1 = Some (stay_booking\<lparr>b_is_deleted := True\<rparr>)"
    by (simp add: booking_query_get_def hotel_with_def stay_booking_def)
  have f: "b_is_deleted (stay_booking\<lparr>b_is_deleted := True\<rparr>)" by simp
  have m: "mark_deleted False 1 ?st = hotel_with [stay_booking]"
    by (simp add: mark_deleted_def hotel_with_def stay_booking_def)
  have c: "confirm_booking (hotel_with [stay_booking]) 1
       = Inr (hotel_with [stay_booking\<lparr>b_status := CONFIRMED\<rparr>])"
    by (simp add: confirm_booking_def booking_query_get_def commit_booking_def hotel_with_def
        stay_booking_def)
  have m2: "mark_deleted True 1 (hotel_with [stay_booking\<lparr>b_status := CONFIRMED\<rparr>])
       = hotel_with [stay_booking\<lparr>b_status := CONFIRMED, b_is_deleted := True\<rparr>]"
    by (simp add: mark_deleted_def hotel_with_def stay_booking_def)
  have o: "check_out (hotel_with [stay_booking]) 1 noon = Inl IllegalTransition"
    by (simp add: check_out_def booking_query_get_def hotel_with_def stay_booking_def)
  from transitions_ignore_soft_delete [OF d q f, where reason = None and policy_now = noon
      and now = noon and requested = None and plan = 0]
  show ?thesis using d q m c m2 o by simp
qed

end
